theory Spec2Isabelle
  imports Main
begin

section \<open>Data model\<close>

text \<open>
  The persistence layer (Prisma) is a collaborator of the code under study. A table is a
  list of rows in storage order; the rows the code reads and writes are records holding
  the columns it touches.
\<close>

datatype UserRole = USER | ADMIN | SUPERADMIN

record User =
  user_id :: string
  username :: string
  role :: UserRole
  contact_firstName :: "string option"

record Membership =
  membership_id :: string
  membership_userId :: string
  membership_orgId :: string
  membership_role :: UserRole
  isDefault :: bool

record Organization =
  org_id :: string
  org_name :: string
  org_host :: string
  org_subdomain :: "string option"
  org_replyToEmail :: string

record Db =
  users :: "User list"
  memberships :: "Membership list"
  organizations :: "Organization list"

text \<open>
  The session is the bag of key/value pairs that \<open>sessionStorage.getSession\<close> decodes
  from the request's cookie (empty when the cookie is absent or does not verify).
\<close>

type_synonym SessionData = "string \<rightharpoonup> string"

text \<open>
  The submitted form of the organization chooser, field by field; \<open>fd_rememberSelection\<close>
  is the value \<open>CheckboxSchema\<close> parses the checkbox to.
\<close>

record FormData =
  fd_orgId :: "string option"
  fd_redirectTo :: "string option"
  fd_rememberSelection :: bool

text \<open>
  A request: the session its cookie decodes to, the origin and the pathname of its URL
  (\<open>new URL(request.url)\<close> cannot fail on the URL of a request that was received), and
  its form data.
\<close>

record Request =
  cookie_session :: SessionData
  url_origin :: string
  url_pathname :: string
  formData :: FormData

text \<open>
  The value of a \<open>Set-Cookie\<close> header: the session committed (with its \<open>maxAge\<close>, if
  any) or destroyed.
\<close>

datatype SetCookie =
  CommitSession SessionData "nat option"
| DestroySession SessionData

datatype Response =
  Redirect string "SetCookie option"
| ValidationError "(string \<times> string) list"

text \<open>
  Everything the code throws. \<open>unauthorized\<close> and \<open>forbidden\<close> are the two response
  helpers of \<open>lib/responses.server\<close>; a thrown value records which of them built it and
  from which user. \<open>NotFoundError\<close> is what Prisma's \<open>findUniqueOrThrow\<close> and \<open>update\<close>
  throw when no row matches. \<open>Exception\<close> carries an exception of the platform
  (URL parsing, the mail transport, rendering).
\<close>

datatype 'x thrown =
  ThrownResponse Response
| Unauthorized User
| Forbidden "User option"
| NotFoundError
| Exception 'x

section \<open>URLSearchParams serialisation\<close>

text \<open>
  \<open>URLSearchParams.toString\<close> is the application/x-www-form-urlencoded serialiser: a
  space becomes \<open>+\<close>, ASCII letters and digits and \<open>* - . _\<close> stay, every other byte is
  percent-encoded with upper-case hexadecimal digits.
\<close>

definition hexDigit :: "nat \<Rightarrow> char" where
  "hexDigit n = ''0123456789ABCDEF'' ! (n mod 16)"

definition percentEncode :: "char \<Rightarrow> string" where
  "percentEncode c = [CHR ''%'', hexDigit ((of_char c :: nat) div 16), hexDigit ((of_char c :: nat) mod 16)]"

definition isAlphanumeric :: "char \<Rightarrow> bool" where
  "isAlphanumeric c = (let n = (of_char c :: nat) in
     (48 \<le> n \<and> n \<le> 57) \<or> (65 \<le> n \<and> n \<le> 90) \<or> (97 \<le> n \<and> n \<le> 122))"

definition urlencodedByte :: "char \<Rightarrow> string" where
  "urlencodedByte c =
     (if c = CHR '' '' then ''+''
      else if isAlphanumeric c \<or> c \<in> set ''*-._'' then [c]
      else percentEncode c)"

definition urlencodedString :: "string \<Rightarrow> string" where
  "urlencodedString s = concat (map urlencodedByte s)"

fun URLSearchParams_toString :: "(string \<times> string) list \<Rightarrow> string" where
  "URLSearchParams_toString [] = []"
| "URLSearchParams_toString [(k, v)] = urlencodedString k @ ''='' @ urlencodedString v"
| "URLSearchParams_toString ((k, v) # kvs) =
     urlencodedString k @ ''='' @ urlencodedString v @ ''&'' @ URLSearchParams_toString kvs"

section \<open>SessionService\<close>

definition USER_SESSION_KEY :: string where
  "USER_SESSION_KEY = ''userId''"

definition getUserById :: "Db \<Rightarrow> string \<Rightarrow> User option" where
  "getUserById db uid = find (\<lambda>u. user_id u = uid) (users db)"

definition getSession :: "Request \<Rightarrow> SessionData" where
  "getSession request = cookie_session request"

definition logout :: "Request \<Rightarrow> Response" where
  "logout request = (let session = getSession request in
     Redirect ''/login'' (Some (DestroySession session)))"

definition getUserId :: "Request \<Rightarrow> string option" where
  "getUserId request = (let session = getSession request in session USER_SESSION_KEY)"

definition getUser :: "Db \<Rightarrow> Request \<Rightarrow> 'x thrown + User option" where
  "getUser db request =
     (case getUserId request of
        None \<Rightarrow> Inr None
      | Some userId \<Rightarrow>
          (case getUserById db userId of
             Some user \<Rightarrow> Inr (Some user)
           | None \<Rightarrow> Inl (ThrownResponse (logout request))))"

text \<open>
  \<open>requireUserId\<close>: the second argument is optional and defaults to the pathname of the
  request. \<open>!userId\<close> holds for an absent user id and for the empty string.
\<close>

definition requireUserId :: "Request \<Rightarrow> string option \<Rightarrow> 'x thrown + string" where
  "requireUserId request redirectTo_arg =
     (let redirectTo = (case redirectTo_arg of None \<Rightarrow> url_pathname request | Some r \<Rightarrow> r);
          userId = getUserId request
      in if userId = None \<or> userId = Some []
         then (let searchParams = [(''redirectTo'', redirectTo)]
               in Inl (ThrownResponse (Redirect (''/login?'' @ URLSearchParams_toString searchParams) None)))
         else Inr (the userId))"

definition defaultAllowedRoles :: "UserRole list" where
  "defaultAllowedRoles = [USER, ADMIN]"

definition requireUserByRole :: "Db \<Rightarrow> Request \<Rightarrow> UserRole list option \<Rightarrow> 'x thrown + User" where
  "requireUserByRole db request allowedRoles =
     (case requireUserId request None of
        Inl e \<Rightarrow> Inl e
      | Inr userId \<Rightarrow>
          (case getUserById db userId of
             None \<Rightarrow> Inl (Forbidden None)
           | Some user \<Rightarrow>
               if role user = SUPERADMIN then Inr user
               else if allowedRoles \<noteq> None \<and> length (the allowedRoles) > 0 then
                 (if role user \<in> set (the allowedRoles) then Inr user
                  else Inl (Unauthorized user))
               else if role user \<in> set defaultAllowedRoles then Inr user
               else Inl (Forbidden (Some user))))"

definition requireUser :: "Db \<Rightarrow> Request \<Rightarrow> 'x thrown + User" where
  "requireUser db request = requireUserByRole db request None"

definition requireAdmin :: "Db \<Rightarrow> Request \<Rightarrow> 'x thrown + User" where
  "requireAdmin db request = requireUserByRole db request (Some [ADMIN])"

definition requireSuperAdmin :: "Db \<Rightarrow> Request \<Rightarrow> 'x thrown + User" where
  "requireSuperAdmin db request = requireUserByRole db request (Some [SUPERADMIN])"

definition createUserSession :: "Request \<Rightarrow> string \<Rightarrow> bool \<Rightarrow> string \<Rightarrow> Response" where
  "createUserSession request uid remember redirectTo =
     (let session = (getSession request)(USER_SESSION_KEY \<mapsto> uid)
      in Redirect redirectTo
           (Some (CommitSession session (if remember then Some (60 * 60 * 24 * 7) else None))))"

section \<open>The platform\<close>

text \<open>
  What the code calls outside the repository's own logic: the URL class, and for the
  mail senders the transport \<open>sendEmail\<close>, the renderer of the welcome mail and
  \<open>capitalize\<close>. The functions below take them as parameters, so that every statement
  holds whatever they compute. \<open>'u\<close> is the type of URL objects, \<open>'x\<close> of the exceptions
  of the platform, \<open>'d\<close> of what the transport returns for a mail it accepted.
\<close>

record ('u, 'x) URLClass =
  URL_new :: "string \<Rightarrow> string \<Rightarrow> 'x + 'u"
  URL_toString :: "'u \<Rightarrow> string"
  URL_searchParams_set :: "'u \<Rightarrow> string \<Rightarrow> string \<Rightarrow> 'u"

record Email =
  email_from :: string
  email_to :: string
  email_subject :: string
  email_html :: string

record ('x, 'd) Mailer =
  sendEmail :: "Email \<Rightarrow> 'x + 'd"
  render_WelcomeEmail :: "string option \<Rightarrow> string \<Rightarrow> string \<Rightarrow> 'x + string"
  capitalize :: "string \<Rightarrow> string"

section \<open>The organization chooser\<close>

record ChooseOrgData =
  data_orgId :: string
  data_redirectTo :: "string option"
  data_rememberSelection :: bool

text \<open>
  The validator: \<open>orgId\<close> is a string of at least one character, \<open>redirectTo\<close> is
  optional. An error is the list of the fields in error with their messages.
\<close>

definition validate :: "FormData \<Rightarrow> (string \<times> string) list + ChooseOrgData" where
  "validate fd =
     (case fd_orgId fd of
        None \<Rightarrow> Inl [(''orgId'', ''Required'')]
      | Some oid \<Rightarrow>
          if length oid < 1 then Inl [(''orgId'', ''Organization is required'')]
          else Inr \<lparr>data_orgId = oid, data_redirectTo = fd_redirectTo fd,
                    data_rememberSelection = fd_rememberSelection fd\<rparr>)"

text \<open>
  The three membership queries of the action. \<open>(userId, orgId)\<close> is a unique key of the
  table, so \<open>where: { userId_orgId }\<close> selects at most one row.
\<close>

definition membership_findUnique :: "Db \<Rightarrow> string \<Rightarrow> string \<Rightarrow> Membership option" where
  "membership_findUnique db uid oid =
     find (\<lambda>m. membership_userId m = uid \<and> membership_orgId m = oid) (memberships db)"

definition membership_findUniqueOrThrow :: "Db \<Rightarrow> string \<Rightarrow> string \<Rightarrow> 'x thrown + string" where
  "membership_findUniqueOrThrow db uid oid =
     (case membership_findUnique db uid oid of
        None \<Rightarrow> Inl NotFoundError
      | Some m \<Rightarrow> Inr (membership_id m))"

definition membership_update :: "Db \<Rightarrow> string \<Rightarrow> string \<Rightarrow> bool \<Rightarrow> 'x thrown + Db" where
  "membership_update db uid oid v =
     (case membership_findUnique db uid oid of
        None \<Rightarrow> Inl NotFoundError
      | Some _ \<Rightarrow>
          Inr (db\<lparr>memberships :=
                 map (\<lambda>m. if membership_userId m = uid \<and> membership_orgId m = oid
                           then m\<lparr>isDefault := v\<rparr> else m) (memberships db)\<rparr>))"

definition membership_updateMany :: "Db \<Rightarrow> string \<Rightarrow> bool \<Rightarrow> Db" where
  "membership_updateMany db uid v =
     db\<lparr>memberships :=
          map (\<lambda>m. if membership_userId m = uid then m\<lparr>isDefault := v\<rparr> else m) (memberships db)\<rparr>"

text \<open>
  Modelled from the spec: the constant \<open>SessionService.ORGANIZATION_SESSION_KEY\<close>, which
  the chooser imports from a version of the session service that is not among the
  sources; the spec names the key \<open>organizationId\<close>.
\<close>

definition ORGANIZATION_SESSION_KEY :: string where
  "ORGANIZATION_SESSION_KEY = ''organizationId''"

text \<open>
  The action of the chooser. It returns what it returns or throws, together with the
  database it leaves behind.
\<close>

definition action :: "('u, 'x) URLClass \<Rightarrow> Db \<Rightarrow> Request \<Rightarrow> ('x thrown + Response) \<times> Db" where
  "action U db request =
     (case requireUserId request None of
        Inl e \<Rightarrow> (Inl e, db)
      | Inr uid \<Rightarrow>
          (case validate (formData request) of
             Inl err \<Rightarrow> (Inr (ValidationError err), db)
           | Inr result \<Rightarrow>
               (let oid = data_orgId result;
                    redirectTo = data_redirectTo result;
                    rememberSelection = data_rememberSelection result
                in case membership_findUniqueOrThrow db uid oid of
                     Inl e \<Rightarrow> (Inl e, db)
                   | Inr _ \<Rightarrow>
                       (case (if rememberSelection then membership_update db uid oid True
                              else Inr (membership_updateMany db uid False)) of
                          Inl e \<Rightarrow> (Inl e, db)
                        | Inr db' \<Rightarrow>
                            (let session = (getSession request)(ORGANIZATION_SESSION_KEY \<mapsto> oid)
                             in case URL_new U (case redirectTo of None \<Rightarrow> ''/'' | Some r \<Rightarrow> r)
                                       (url_origin request) of
                                  Inl x \<Rightarrow> (Inl (Exception x), db')
                                | Inr redirectUrl \<Rightarrow>
                                    (Inr (Redirect (URL_toString U redirectUrl)
                                            (Some (CommitSession session None))), db'))))))"

text \<open>
  The hidden \<open>redirectTo\<close> field of the chooser's form, computed from the \<open>redirectTo\<close>
  search parameter of the page (\<open>None\<close> when the parameter is absent).
\<close>

definition LoginPage_redirectTo :: "string option \<Rightarrow> string" where
  "LoginPage_redirectTo param =
     (let redirectTo = (case param of None \<Rightarrow> ''/'' | Some s \<Rightarrow> if s = [] then ''/'' else s)
      in if redirectTo = ''/choose-org'' then ''/'' else redirectTo)"

text \<open>The memberships of a user that are marked as the default, in storage order.\<close>

definition defaults_of :: "Db \<Rightarrow> string \<Rightarrow> Membership list" where
  "defaults_of db uid = filter (\<lambda>m. membership_userId m = uid \<and> isDefault m) (memberships db)"

section \<open>The mail senders\<close>

datatype ReimbursementRequestStatus = PENDING | APPROVED | REJECTED | VOID

fun status_string :: "ReimbursementRequestStatus \<Rightarrow> string" where
  "status_string PENDING = ''PENDING''"
| "status_string APPROVED = ''APPROVED''"
| "status_string REJECTED = ''REJECTED''"
| "status_string VOID = ''VOID''"

text \<open>What a sender returns: \<open>{ data }\<close> or \<open>{ error }\<close>.\<close>

datatype ('e, 'd) MailResult = Data 'd | Error 'e

text \<open>
  The \<open>try { ... return { data } } catch (error) { Sentry.captureException(error);
  return { error } }\<close> block the three senders end with: the result, and the list of what
  was reported to Sentry.
\<close>

definition try_capture :: "'e + 'd \<Rightarrow> ('e, 'd) MailResult \<times> 'e list" where
  "try_capture body = (case body of Inr d \<Rightarrow> (Data d, []) | Inl error \<Rightarrow> (Error error, [error]))"

definition organization_findUniqueOrThrow :: "Db \<Rightarrow> string \<Rightarrow> 'x thrown + Organization" where
  "organization_findUniqueOrThrow db oid =
     (case find (\<lambda>org. org_id org = oid) (organizations db) of
        None \<Rightarrow> Inl NotFoundError
      | Some org \<Rightarrow> Inr org)"

definition user_findUniqueOrThrow_username :: "Db \<Rightarrow> string \<Rightarrow> 'x thrown + User" where
  "user_findUniqueOrThrow_username db email =
     (case find (\<lambda>u. username u = email) (users db) of
        None \<Rightarrow> Inl NotFoundError
      | Some u \<Rightarrow> Inr u)"

definition org_base :: "Organization \<Rightarrow> string" where
  "org_base org =
     ''https://'' @ (case org_subdomain org of
                       None \<Rightarrow> []
                     | Some sub \<Rightarrow> if sub = [] then [] else sub @ ''.'') @ org_host org"

definition org_from :: "Organization \<Rightarrow> string" where
  "org_from org = org_name org @ '' <'' @ org_replyToEmail org @ ''@'' @ org_host org @ ''>''"

definition nl :: string where
  "nl = [CHR 0x0A]"

definition dq :: string where
  "dq = [CHR 0x22]"

definition reset_html :: "Organization \<Rightarrow> string \<Rightarrow> string" where
  "reset_html org href =
     nl @ ''        <p>Hi there,</p>'' @
     nl @ ''        <p>Someone requested a password reset for your '' @ org_name org @
          '' account. If this was you, please click the link below to reset your password. The link will expire in 15 minutes.</p>'' @
     nl @ ''        <p><a style='' @ dq @ ''color:#976bff'' @ dq @ '' href='' @ dq @ href @ dq @
          '' target='' @ dq @ ''_blank'' @ dq @ ''>Reset Password</a></p>'' @
     nl @ ''        <p>If you did not request a password reset, you can safely ignore this email.</p>'' @
     nl @ ''        ''"

definition sendPasswordResetEmail ::
  "('u, 'x) URLClass \<Rightarrow> ('x, 'd) Mailer \<Rightarrow> Db \<Rightarrow> string \<Rightarrow> string \<Rightarrow> string
     \<Rightarrow> 'x thrown + ('x thrown, 'd) MailResult \<times> 'x thrown list" where
  "sendPasswordResetEmail U M db email token oid =
     (case organization_findUniqueOrThrow db oid of
        Inl e \<Rightarrow> Inl e
      | Inr org \<Rightarrow>
          (case URL_new U ''/passwords/new'' (org_base org) of
             Inl x \<Rightarrow> Inl (Exception x)
           | Inr url0 \<Rightarrow>
               (let url1 = URL_searchParams_set U url0 ''token'' token;
                    url = URL_searchParams_set U url1 ''isReset'' ''true''
                in Inr (try_capture
                     (case sendEmail M \<lparr>email_from = org_from org, email_to = email,
                                         email_subject = ''Reset Your Password'',
                                         email_html = reset_html org (URL_toString U url)\<rparr> of
                        Inl x \<Rightarrow> Inl (Exception x)
                      | Inr d \<Rightarrow> Inr d)))))"

definition sendPasswordSetupEmail ::
  "('u, 'x) URLClass \<Rightarrow> ('x, 'd) Mailer \<Rightarrow> Db \<Rightarrow> string \<Rightarrow> string \<Rightarrow> string
     \<Rightarrow> 'x thrown + ('x thrown, 'd) MailResult \<times> 'x thrown list" where
  "sendPasswordSetupEmail U M db email token oid =
     (case organization_findUniqueOrThrow db oid of
        Inl e \<Rightarrow> Inl e
      | Inr org \<Rightarrow>
          (case user_findUniqueOrThrow_username db email of
             Inl e \<Rightarrow> Inl e
           | Inr user \<Rightarrow>
               (case URL_new U ''/passwords/new'' (org_base org) of
                  Inl x \<Rightarrow> Inl (Exception x)
                | Inr url0 \<Rightarrow>
                    (let url = URL_searchParams_set U url0 ''token'' token
                     in case render_WelcomeEmail M (contact_firstName user) (org_name org)
                               (URL_toString U url) of
                          Inl x \<Rightarrow> Inl (Exception x)
                        | Inr html \<Rightarrow>
                            Inr (try_capture
                              (case sendEmail M \<lparr>email_from = org_from org, email_to = email,
                                                  email_subject = ''Setup Your Password'',
                                                  email_html = html\<rparr> of
                                 Inl x \<Rightarrow> Inl (Exception x)
                               | Inr d \<Rightarrow> Inr d))))))"

definition reimbursement_html :: "string \<Rightarrow> string option \<Rightarrow> string" where
  "reimbursement_html status note =
     nl @ ''          <p>Hi there,</p>'' @
     nl @ ''          <p>Your reimbursement request has been '' @ status @ ''.</p>'' @
     nl @ ''          '' @ (case note of
                              None \<Rightarrow> []
                            | Some n \<Rightarrow> if n = [] then []
                                        else ''<p>Administrator note: '' @ n @ ''</p>'') @
     nl @ ''        ''"

definition sendReimbursementRequestUpdateEmail ::
  "('u, 'x) URLClass \<Rightarrow> ('x, 'd) Mailer \<Rightarrow> Db \<Rightarrow> string \<Rightarrow> ReimbursementRequestStatus \<Rightarrow> string \<Rightarrow> string option
     \<Rightarrow> 'x thrown + ('x thrown, 'd) MailResult \<times> 'x thrown list" where
  "sendReimbursementRequestUpdateEmail U M db email status oid note =
     Inr (try_capture
       (case organization_findUniqueOrThrow db oid of
          Inl e \<Rightarrow> Inl e
        | Inr org \<Rightarrow>
            (case sendEmail M \<lparr>email_from = org_from org, email_to = email,
                                email_subject = ''Reimbursement Request '' @ capitalize M (status_string status),
                                email_html = reimbursement_html (capitalize M (status_string status)) note\<rparr> of
               Inl x \<Rightarrow> Inl (Exception x)
             | Inr d \<Rightarrow> Inr d)))"

section \<open>Example data\<close>

text \<open>
  An instance of the URL class for the examples. A URL object is its text up to the
  query together with its search parameters. The constructor covers the resolution of a
  plain path against a plain origin, where the URL class appends the path to the
  origin:
  \<^item> a plain path is a slash followed by letters, digits, \<open>-\<close>, \<open>_\<close> and further
    slashes, the second character not being a slash (no dot segment, no query, no
    fragment, nothing to percent-encode, no host);
  \<^item> a plain origin is \<open>http://\<close> or \<open>https://\<close>, a host of lower-case letters and
    dots that starts with a letter, and at most a port of four digits without a leading
    zero (so never the default port, which the URL class would drop).
  On anything else the instance stops with \<open>OutsideInstance\<close>: it does not say what the
  URL class does there.
\<close>

datatype URLInstanceStop = OutsideInstance

definition isLowerLetter :: "char \<Rightarrow> bool" where
  "isLowerLetter c = (97 \<le> (of_char c :: nat) \<and> (of_char c :: nat) \<le> 122)"

definition isDigit :: "char \<Rightarrow> bool" where
  "isDigit c = (48 \<le> (of_char c :: nat) \<and> (of_char c :: nat) \<le> 57)"

definition plain_path :: "string \<Rightarrow> bool" where
  "plain_path ref =
     (case ref of
        [] \<Rightarrow> False
      | c # cs \<Rightarrow>
          c = CHR ''/'' \<and> (case cs of [] \<Rightarrow> True | d # _ \<Rightarrow> d \<noteq> CHR ''/'')
          \<and> list_all (\<lambda>c. isAlphanumeric c \<or> c \<in> set ''-_/'') cs)"

definition plain_host_port :: "string \<Rightarrow> bool" where
  "plain_host_port s =
     (let host = takeWhile (\<lambda>c. c \<noteq> CHR '':'') s;
          port = dropWhile (\<lambda>c. c \<noteq> CHR '':'') s
      in (case host of [] \<Rightarrow> False | h # _ \<Rightarrow> isLowerLetter h)
         \<and> list_all (\<lambda>c. isLowerLetter c \<or> c = CHR ''.'') host
         \<and> (case port of
               [] \<Rightarrow> True
             | _ # ds \<Rightarrow> length ds = 4 \<and> list_all isDigit ds
                          \<and> (case ds of [] \<Rightarrow> False | d # _ \<Rightarrow> d \<noteq> CHR ''0'')))"

definition plain_origin :: "string \<Rightarrow> bool" where
  "plain_origin base =
     (if take 7 base = ''http://'' then plain_host_port (drop 7 base)
      else if take 8 base = ''https://'' then plain_host_port (drop 8 base)
      else False)"

definition URL_plain ::
  "string \<Rightarrow> string \<Rightarrow> URLInstanceStop + string \<times> (string \<times> string) list" where
  "URL_plain ref base =
     (if plain_path ref \<and> plain_origin base then Inr (base @ ref, []) else Inl OutsideInstance)"

fun params_set :: "(string \<times> string) list \<Rightarrow> string \<Rightarrow> string \<Rightarrow> (string \<times> string) list" where
  "params_set [] k v = [(k, v)]"
| "params_set ((k', v') # kvs) k v =
     (if k' = k then (k, v) # filter (\<lambda>kv. fst kv \<noteq> k) kvs else (k', v') # params_set kvs k v)"

definition url_ex :: "(string \<times> (string \<times> string) list, URLInstanceStop) URLClass" where
  "url_ex = \<lparr>URL_new = URL_plain,
            URL_toString = (\<lambda>(h, ps). if ps = [] then h else h @ ''?'' @ URLSearchParams_toString ps),
            URL_searchParams_set = (\<lambda>(h, ps) k v. (h, params_set ps k v))\<rparr>"

text \<open>
  The scenario of the specification: user \<open>U1\<close> is a member of the organizations \<open>A\<close>
  (as an administrator) and \<open>B\<close> (as a user, remembered as the default). \<open>U0\<close> is a
  super-administrator.
\<close>

definition user_U0 :: User where
  "user_U0 = \<lparr>user_id = ''U0'', username = ''root@example.org'', role = SUPERADMIN,
              contact_firstName = Some ''Root''\<rparr>"

definition user_U1 :: User where
  "user_U1 = \<lparr>user_id = ''U1'', username = ''una@example.org'', role = USER,
              contact_firstName = Some ''Una''\<rparr>"

definition membership_A :: Membership where
  "membership_A = \<lparr>membership_id = ''m1'', membership_userId = ''U1'', membership_orgId = ''A'',
                   membership_role = ADMIN, isDefault = False\<rparr>"

definition membership_B :: Membership where
  "membership_B = \<lparr>membership_id = ''m2'', membership_userId = ''U1'', membership_orgId = ''B'',
                   membership_role = USER, isDefault = True\<rparr>"

definition db_ex :: Db where
  "db_ex = \<lparr>users = [user_U0, user_U1],
            memberships = [membership_A, membership_B],
            organizations =
              [\<lparr>org_id = ''A'', org_name = ''Alliance'', org_host = ''example.org'',
                org_subdomain = Some ''a'', org_replyToEmail = ''no-reply''\<rparr>,
               \<lparr>org_id = ''B'', org_name = ''Beta'', org_host = ''example.org'',
                org_subdomain = None, org_replyToEmail = ''no-reply''\<rparr>]\<rparr>"

definition form_ex :: "string \<Rightarrow> string option \<Rightarrow> bool \<Rightarrow> FormData" where
  "form_ex oid redirectTo remember =
     \<lparr>fd_orgId = Some oid, fd_redirectTo = redirectTo, fd_rememberSelection = remember\<rparr>"

definition request_ex :: "string option \<Rightarrow> string \<Rightarrow> FormData \<Rightarrow> Request" where
  "request_ex uid path fd =
     \<lparr>cookie_session = (case uid of None \<Rightarrow> Map.empty | Some u \<Rightarrow> [''userId'' \<mapsto> u]),
      url_origin = ''http://localhost:3000'', url_pathname = path, formData = fd\<rparr>"

section \<open>Properties of the session service\<close>

lemma requireUserId_present:
  "getUserId request = Some uid \<Longrightarrow> uid \<noteq> [] \<Longrightarrow> requireUserId request r = Inr uid"
  by (simp add: requireUserId_def)

lemma requireUserId_absent:
  "getUserId request = None \<or> getUserId request = Some [] \<Longrightarrow>
   requireUserId request r =
     Inl (ThrownResponse (Redirect (''/login?redirectTo='' @
            urlencodedString (case r of None \<Rightarrow> url_pathname request | Some p \<Rightarrow> p)) None))"
  by (auto simp: requireUserId_def urlencodedString_def urlencodedByte_def isAlphanumeric_def)

lemma getUserId_request_ex [simp]:
  "getUserId (request_ex uid path fd) = uid"
  by (cases uid) (simp_all add: getUserId_def getSession_def request_ex_def USER_SESSION_KEY_def)

lemma getUserById_db_ex [simp]:
  "getUserById db_ex ''U0'' = Some user_U0"
  "getUserById db_ex ''U1'' = Some user_U1"
  "getUserById db_ex ''U9'' = None"
  by (simp_all add: getUserById_def db_ex_def user_U0_def user_U1_def)

text \<open>
  Claim C4. When the user id of the session resolves to a user whose global role is
  \<open>SUPERADMIN\<close>, \<open>requireUserByRole\<close> returns that user whatever \<open>allowedRoles\<close> is,
  absent, empty or without \<open>SUPERADMIN\<close>; so do \<open>requireUser\<close>, \<open>requireAdmin\<close> and
  \<open>requireSuperAdmin\<close>.
\<close>

theorem requireUserByRole_superadmin:
  assumes "getUserId request = Some uid" and "uid \<noteq> []"
    and "getUserById db uid = Some user" and "role user = SUPERADMIN"
  shows "requireUserByRole db request allowedRoles = Inr user
       \<and> requireUser db request = Inr user
       \<and> requireAdmin db request = Inr user
       \<and> requireSuperAdmin db request = Inr user"
  using assms
  by (simp add: requireUserByRole_def requireUser_def requireAdmin_def requireSuperAdmin_def
      requireUserId_present)

theorem requireUserByRole_superadmin_witness:
  "getUserId (request_ex (Some ''U0'') ''/users'' (form_ex ''A'' None False)) = Some ''U0''
   \<and> ''U0'' \<noteq> [] \<and> getUserById db_ex ''U0'' = Some user_U0 \<and> role user_U0 = SUPERADMIN
   \<and> (requireUserByRole db_ex (request_ex (Some ''U0'') ''/users'' (form_ex ''A'' None False))
         (Some [ADMIN]) :: string thrown + User) = Inr user_U0"
proof -
  let ?r = "request_ex (Some ''U0'') ''/users'' (form_ex ''A'' None False)"
  have h1: "getUserId ?r = Some ''U0''" by simp
  have h2: "''U0'' \<noteq> []" by simp
  have h3: "getUserById db_ex ''U0'' = Some user_U0" by simp
  have h4: "role user_U0 = SUPERADMIN" by (simp add: user_U0_def)
  show ?thesis
    using h1 h2 h3 h4 by (simp add: requireUserByRole_superadmin [OF h1 h2 h3 h4])
qed

text \<open>
  Claim C2 says that a user whose role is not in a non-empty \<open>allowedRoles\<close> is refused
  with \<open>forbidden\<close>. The code refuses with \<open>unauthorized\<close> there: \<open>requireAdmin\<close> for the
  plain user \<open>U1\<close> throws \<open>unauthorized({ user })\<close>.
\<close>

theorem requireAdmin_user_counterexample:
  "(requireAdmin db_ex (request_ex (Some ''U1'') ''/users'' (form_ex ''A'' None False))
      :: string thrown + User) = Inl (Unauthorized user_U1)
   \<and> (requireAdmin db_ex (request_ex (Some ''U1'') ''/users'' (form_ex ''A'' None False))
      :: string thrown + User) \<noteq> Inl (Forbidden (Some user_U1))"
  by (simp add: requireAdmin_def requireUserByRole_def requireUserId_present user_U1_def)

lemma role_not_SUPERADMIN: "role user \<noteq> SUPERADMIN \<Longrightarrow> role user \<in> set defaultAllowedRoles"
  by (cases "role user") (simp_all add: defaultAllowedRoles_def)

lemma requireUserByRole_resolved:
  assumes "getUserId request = Some uid" and "uid \<noteq> []"
    and "getUserById db uid = Some user" and "role user \<noteq> SUPERADMIN"
  shows "requireUserByRole db request allowedRoles =
           (case allowedRoles of
              None \<Rightarrow> Inr user
            | Some rs \<Rightarrow> if rs = [] \<or> role user \<in> set rs then Inr user
                         else Inl (Unauthorized user))"
  using assms
  by (simp add: requireUserByRole_def requireUserId_present role_not_SUPERADMIN
      split: option.splits)

lemma requireUserByRole_Forbidden:
  assumes "requireUserByRole db request allowedRoles = Inl (Forbidden x)"
  shows "x = None \<and> (\<exists>uid. getUserId request = Some uid \<and> uid \<noteq> [] \<and> getUserById db uid = None)"
proof (cases "getUserId request = None \<or> getUserId request = Some []")
  case True
  then show ?thesis
    using assms by (simp add: requireUserByRole_def requireUserId_absent)
next
  case False
  then obtain uid where u: "getUserId request = Some uid" "uid \<noteq> []"
    by auto
  show ?thesis
  proof (cases "getUserById db uid")
    case None
    with u assms show ?thesis
      by (simp add: requireUserByRole_def requireUserId_present)
  next
    case (Some user)
    show ?thesis
    proof (cases "role user = SUPERADMIN")
      case True
      with u Some assms show ?thesis
        by (simp add: requireUserByRole_def requireUserId_present)
    next
      case False
      with u Some assms show ?thesis
        by (simp add: requireUserByRole_resolved split: option.splits if_splits)
    qed
  qed
qed

lemma requireAdmin_dangling_ex:
  "requireAdmin db_ex (request_ex (Some ''U9'') ''/users'' (form_ex ''A'' None False))
     = Inl (Forbidden None)"
  by (simp add: requireAdmin_def requireUserByRole_def requireUserId_present)

text \<open>
  Claim C2, amended. For a resolved user whose role is not \<open>SUPERADMIN\<close> and a given,
  non-empty \<open>allowedRoles\<close> without that role, \<open>requireUserByRole\<close> fails by throwing
  what \<open>unauthorized({ user })\<close> builds; so does \<open>requireAdmin\<close> for a user who is not
  an administrator, and \<open>requireSuperAdmin\<close> for every such user. \<open>forbidden\<close> is thrown
  on one path only: when the user id of the session resolves to no stored user, and
  then with the user \<open>null\<close>.
\<close>

theorem requireUserByRole_not_allowed:
  "(getUserId request = Some uid \<and> uid \<noteq> [] \<and> getUserById db uid = Some user
      \<and> role user \<noteq> SUPERADMIN \<longrightarrow>
        (allowedRoles \<noteq> [] \<and> role user \<notin> set allowedRoles \<longrightarrow>
           requireUserByRole db request (Some allowedRoles) = Inl (Unauthorized user))
        \<and> (role user \<noteq> ADMIN \<longrightarrow> requireAdmin db request = Inl (Unauthorized user))
        \<and> requireSuperAdmin db request = Inl (Unauthorized user))
   \<and> (requireUserByRole db request anyRoles = Inl (Forbidden x) \<longrightarrow>
        x = None
        \<and> (\<exists>u. getUserId request = Some u \<and> u \<noteq> [] \<and> getUserById db u = None))"
proof (intro conjI impI)
  assume h: "getUserId request = Some uid \<and> uid \<noteq> [] \<and> getUserById db uid = Some user
      \<and> role user \<noteq> SUPERADMIN"
  then have r: "\<And>ar. requireUserByRole db request ar =
           (case ar of
              None \<Rightarrow> Inr user
            | Some rs \<Rightarrow> if rs = [] \<or> role user \<in> set rs then Inr user
                         else Inl (Unauthorized user))"
    by (simp add: requireUserByRole_resolved)
  show "requireUserByRole db request (Some allowedRoles) = Inl (Unauthorized user)"
    if "allowedRoles \<noteq> [] \<and> role user \<notin> set allowedRoles"
    using that by (simp add: r)
  show "requireAdmin db request = Inl (Unauthorized user)" if "role user \<noteq> ADMIN"
    using that by (simp add: requireAdmin_def r)
  show "requireSuperAdmin db request = Inl (Unauthorized user)"
    using h by (simp add: requireSuperAdmin_def r)
next
  assume "requireUserByRole db request anyRoles = Inl (Forbidden x)"
  then show "x = None"
    and "\<exists>u. getUserId request = Some u \<and> u \<noteq> [] \<and> getUserById db u = None"
    using requireUserByRole_Forbidden by blast+
qed

theorem requireUserByRole_not_allowed_witness:
  "getUserId (request_ex (Some ''U1'') ''/users'' (form_ex ''A'' None False)) = Some ''U1''
   \<and> ''U1'' \<noteq> [] \<and> getUserById db_ex ''U1'' = Some user_U1 \<and> role user_U1 \<noteq> SUPERADMIN
   \<and> [ADMIN] \<noteq> [] \<and> role user_U1 \<notin> set [ADMIN] \<and> role user_U1 \<noteq> ADMIN
   \<and> (requireUserByRole db_ex (request_ex (Some ''U1'') ''/users'' (form_ex ''A'' None False))
         (Some [ADMIN]) :: string thrown + User) = Inl (Unauthorized user_U1)
   \<and> (requireAdmin db_ex (request_ex (Some ''U1'') ''/users'' (form_ex ''A'' None False))
         :: string thrown + User) = Inl (Unauthorized user_U1)
   \<and> (requireSuperAdmin db_ex (request_ex (Some ''U1'') ''/users'' (form_ex ''A'' None False))
         :: string thrown + User) = Inl (Unauthorized user_U1)
   \<and> (requireAdmin db_ex (request_ex (Some ''U9'') ''/users'' (form_ex ''A'' None False))
         :: string thrown + User) = Inl (Forbidden None)
   \<and> getUserById db_ex ''U9'' = None"
proof -
  let ?r = "request_ex (Some ''U1'') ''/users'' (form_ex ''A'' None False)"
  let ?d = "request_ex (Some ''U9'') ''/users'' (form_ex ''A'' None False)"
  have h: "getUserId ?r = Some ''U1'' \<and> ''U1'' \<noteq> [] \<and> getUserById db_ex ''U1'' = Some user_U1
      \<and> role user_U1 \<noteq> SUPERADMIN"
    by (simp add: user_U1_def)
  have k: "[ADMIN] \<noteq> [] \<and> role user_U1 \<notin> set [ADMIN]" and a: "role user_U1 \<noteq> ADMIN"
    by (simp_all add: user_U1_def)
  note t = requireUserByRole_not_allowed
    [where request = ?r and uid = "''U1''" and db = db_ex and user = user_U1
       and allowedRoles = "[ADMIN]"]
  have r1: "(requireUserByRole db_ex ?r (Some [ADMIN]) :: string thrown + User)
              = Inl (Unauthorized user_U1)"
    using t h k by blast
  have r2: "(requireAdmin db_ex ?r :: string thrown + User) = Inl (Unauthorized user_U1)"
    using t h a by blast
  have r3: "(requireSuperAdmin db_ex ?r :: string thrown + User) = Inl (Unauthorized user_U1)"
    using t h by blast
  have f: "(requireUserByRole db_ex ?d (Some [ADMIN]) :: string thrown + User) = Inl (Forbidden None)"
    using requireAdmin_dangling_ex by (simp add: requireAdmin_def)
  have "\<exists>u. getUserId ?d = Some u \<and> u \<noteq> [] \<and> getUserById db_ex u = None"
    using requireUserByRole_not_allowed
      [where request = ?d and db = db_ex and anyRoles = "Some [ADMIN]" and x = None] f
    by blast
  then have g: "getUserById db_ex ''U9'' = None" by simp
  have f': "(requireAdmin db_ex ?d :: string thrown + User) = Inl (Forbidden None)"
    by (rule requireAdmin_dangling_ex)
  from h k a r1 r2 r3 f' g show ?thesis by blast
qed

text \<open>
  Claim C10. When the session carries a user id that does not resolve to a stored user,
  \<open>requireUserByRole\<close>, and with it \<open>requireUser\<close>, \<open>requireAdmin\<close> and
  \<open>requireSuperAdmin\<close>, throws \<open>forbidden({ user: null })\<close>; it does not throw the
  redirect of \<open>logout\<close>, which would destroy the session.
\<close>

theorem requireUserByRole_dangling:
  assumes "getUserId request = Some uid" and "uid \<noteq> []" and "getUserById db uid = None"
  shows "requireUserByRole db request allowedRoles = Inl (Forbidden None)
       \<and> requireUser db request = Inl (Forbidden None)
       \<and> requireAdmin db request = Inl (Forbidden None)
       \<and> requireSuperAdmin db request = Inl (Forbidden None)
       \<and> requireUserByRole db request allowedRoles \<noteq> Inl (ThrownResponse (logout request))"
  using assms
  by (simp add: requireUserByRole_def requireUser_def requireAdmin_def requireSuperAdmin_def
      requireUserId_present)

theorem requireUserByRole_dangling_witness:
  "getUserId (request_ex (Some ''U9'') ''/users'' (form_ex ''A'' None False)) = Some ''U9''
   \<and> ''U9'' \<noteq> [] \<and> getUserById db_ex ''U9'' = None
   \<and> (requireAdmin db_ex (request_ex (Some ''U9'') ''/users'' (form_ex ''A'' None False))
         :: string thrown + User) = Inl (Forbidden None)"
proof -
  let ?r = "request_ex (Some ''U9'') ''/users'' (form_ex ''A'' None False)"
  have h1: "getUserId ?r = Some ''U9''" by simp
  have h2: "''U9'' \<noteq> []" by simp
  have h3: "getUserById db_ex ''U9'' = None" by simp
  show ?thesis
    using h1 h2 h3 by (simp add: requireUserByRole_dangling [OF h1 h2 h3])
qed

text \<open>
  Claim C7. \<open>getUser\<close> returns null when the session carries no user id. When the
  session carries a user id that resolves to no stored user, it throws the redirect to
  \<open>/login\<close> whose \<open>Set-Cookie\<close> header destroys the session, and does not return null.
\<close>

theorem getUser_absent_or_dangling:
  "(getUserId request = None \<longrightarrow> getUser db request = Inr None)
   \<and> (getUserId request = Some uid \<and> getUserById db uid = None \<longrightarrow>
        getUser db request = Inl (ThrownResponse (Redirect ''/login'' (Some (DestroySession (getSession request)))))
        \<and> getUser db request \<noteq> Inr None)"
  by (simp add: getUser_def logout_def)

theorem getUser_absent_or_dangling_witness:
  "getUserId (request_ex None ''/'' (form_ex ''A'' None False)) = None
   \<and> (getUser db_ex (request_ex None ''/'' (form_ex ''A'' None False)) :: string thrown + User option) = Inr None
   \<and> getUserId (request_ex (Some ''U9'') ''/'' (form_ex ''A'' None False)) = Some ''U9''
   \<and> getUserById db_ex ''U9'' = None
   \<and> (getUser db_ex (request_ex (Some ''U9'') ''/'' (form_ex ''A'' None False)) :: string thrown + User option)
       = Inl (ThrownResponse (Redirect ''/login'' (Some (DestroySession [''userId'' \<mapsto> ''U9'']))))"
proof -
  let ?a = "request_ex None ''/'' (form_ex ''A'' None False)"
  let ?b = "request_ex (Some ''U9'') ''/'' (form_ex ''A'' None False)"
  have h1: "getUserId ?a = None" by simp
  have h2: "getUserId ?b = Some ''U9'' \<and> getUserById db_ex ''U9'' = None" by simp
  have s: "getSession ?b = [''userId'' \<mapsto> ''U9'']" by (simp add: getSession_def request_ex_def)
  have a: "(getUser db_ex ?a :: string thrown + User option) = Inr None"
    using h1 by (simp add: getUser_absent_or_dangling [where request = ?a and db = db_ex])
  have b: "(getUser db_ex ?b :: string thrown + User option)
       = Inl (ThrownResponse (Redirect ''/login'' (Some (DestroySession [''userId'' \<mapsto> ''U9'']))))"
    using h2 s
    by (simp add: getUser_absent_or_dangling [where request = ?b and db = db_ex and uid = "''U9''"])
  from a b h1 h2 show ?thesis by blast
qed

text \<open>
  Claim C8. On a request whose session carries no user id, \<open>requireUserId\<close> throws a
  redirect to \<open>/login\<close> with the single query parameter \<open>redirectTo\<close>, whose value is
  the form-urlencoded path asked for, the pathname of the request by default. The
  witness is the example of the specification: \<open>/accounts/42\<close> gives
  \<open>/login?redirectTo=%2Faccounts%2F42\<close>.
\<close>

theorem requireUserId_redirects_to_login:
  assumes "getUserId request = None"
  shows "requireUserId request redirectTo =
           Inl (ThrownResponse (Redirect (''/login?redirectTo='' @
             urlencodedString (case redirectTo of None \<Rightarrow> url_pathname request | Some p \<Rightarrow> p)) None))"
  using assms by (simp add: requireUserId_absent)

theorem requireUserId_redirects_to_login_witness:
  "getUserId (request_ex None ''/accounts/42'' (form_ex ''A'' None False)) = None
   \<and> (requireUserId (request_ex None ''/accounts/42'' (form_ex ''A'' None False)) None :: string thrown + string)
       = Inl (ThrownResponse (Redirect ''/login?redirectTo=%2Faccounts%2F42'' None))"
proof -
  let ?r = "request_ex None ''/accounts/42'' (form_ex ''A'' None False)"
  have h: "getUserId ?r = None" by simp
  have p: "url_pathname ?r = ''/accounts/42''" by (simp add: request_ex_def)
  have e: "urlencodedString ''/accounts/42'' = ''%2Faccounts%2F42''"
    by (simp add: urlencodedString_def urlencodedByte_def isAlphanumeric_def percentEncode_def hexDigit_def)
  show ?thesis
    using h p e by (simp add: requireUserId_redirects_to_login [OF h])
qed

text \<open>
  The serialiser's output is made of letters, digits and \<open>* - . _ + %\<close> only: no
  character of an encoded value can end the parameter or the query.
\<close>

lemma hexDigit_alphanumeric: "isAlphanumeric (hexDigit n)"
proof -
  have "hexDigit n \<in> set ''0123456789ABCDEF''"
    unfolding hexDigit_def by (rule nth_mem) simp
  then show ?thesis by (auto simp: isAlphanumeric_def)
qed

lemma urlencodedByte_safe:
  "set (urlencodedByte c) \<subseteq> {d. isAlphanumeric d \<or> d \<in> set ''*-._+%''}"
  by (auto simp: urlencodedByte_def percentEncode_def hexDigit_alphanumeric)

lemma urlencodedString_safe:
  "set (urlencodedString s) \<subseteq> {d. isAlphanumeric d \<or> d \<in> set ''*-._+%''}"
  unfolding urlencodedString_def using urlencodedByte_safe by (induction s) auto

section \<open>Properties of the organization chooser\<close>

lemma validate_orgId:
  "fd_orgId fd = Some oid \<Longrightarrow> oid \<noteq> [] \<Longrightarrow>
   validate fd = Inr \<lparr>data_orgId = oid, data_redirectTo = fd_redirectTo fd,
                      data_rememberSelection = fd_rememberSelection fd\<rparr>"
  by (cases oid) (simp_all add: validate_def)

lemma validate_orgId_empty:
  "fd_orgId fd = Some [] \<Longrightarrow> validate fd = Inl [(''orgId'', ''Organization is required'')]"
  by (simp add: validate_def)

text \<open>The action on a submission that passes every check: what it leaves in the database.\<close>

lemma action_db:
  assumes "getUserId request = Some uid" and "uid \<noteq> []"
    and "fd_orgId (formData request) = Some oid" and "oid \<noteq> []"
    and "membership_findUnique db uid oid = Some m"
  shows "snd (action U db request) =
           (if fd_rememberSelection (formData request)
            then db\<lparr>memberships :=
                      map (\<lambda>m. if membership_userId m = uid \<and> membership_orgId m = oid
                                then m\<lparr>isDefault := True\<rparr> else m) (memberships db)\<rparr>
            else membership_updateMany db uid False)"
  using assms
  by (simp add: action_def requireUserId_present validate_orgId membership_findUniqueOrThrow_def
      membership_update_def split: sum.splits)

lemma action_response:
  assumes "getUserId request = Some uid" and "uid \<noteq> []"
    and "fd_orgId (formData request) = Some oid" and "oid \<noteq> []"
    and "membership_findUnique db uid oid = Some m"
  shows "fst (action U db request) =
           (case URL_new U (case fd_redirectTo (formData request) of None \<Rightarrow> ''/'' | Some r \<Rightarrow> r)
                   (url_origin request) of
              Inl x \<Rightarrow> Inl (Exception x)
            | Inr redirectUrl \<Rightarrow>
                Inr (Redirect (URL_toString U redirectUrl)
                  (Some (CommitSession ((getSession request)(ORGANIZATION_SESSION_KEY \<mapsto> oid)) None))))"
  using assms
  by (simp add: action_def requireUserId_present validate_orgId membership_findUniqueOrThrow_def
      membership_update_def split: sum.splits)

lemma filter_defaults_cleared:
  "filter (\<lambda>m. membership_userId m = uid \<and> isDefault m)
     (map (\<lambda>m. if membership_userId m = uid then m\<lparr>isDefault := False\<rparr> else m) ms) = []"
  by (induction ms) simp_all

lemma defaults_of_updateMany: "defaults_of (membership_updateMany db uid False) uid = []"
  by (simp add: defaults_of_def membership_updateMany_def filter_defaults_cleared)

text \<open>
  Claim C6. When a user submits one of their organizations without ``remember
  selection'', the action leaves no membership of that user marked as the default.
\<close>

theorem action_forget_clears_defaults:
  assumes "getUserId request = Some uid" and "uid \<noteq> []"
    and "fd_orgId (formData request) = Some oid" and "oid \<noteq> []"
    and "membership_findUnique db uid oid = Some m"
    and "fd_rememberSelection (formData request) = False"
  shows "defaults_of (snd (action U db request)) uid = []"
  using assms by (simp add: action_db defaults_of_updateMany)

lemma membership_findUnique_db_ex [simp]:
  "membership_findUnique db_ex ''U1'' ''A'' = Some membership_A"
  "membership_findUnique db_ex ''U1'' ''B'' = Some membership_B"
  "membership_findUnique db_ex ''U1'' ''C'' = None"
  by (simp_all add: membership_findUnique_def db_ex_def membership_A_def membership_B_def)

lemma formData_request_ex [simp]:
  "fd_orgId (formData (request_ex uid path (form_ex oid r b))) = Some oid"
  "fd_redirectTo (formData (request_ex uid path (form_ex oid r b))) = r"
  "fd_rememberSelection (formData (request_ex uid path (form_ex oid r b))) = b"
  "url_origin (request_ex uid path fd) = ''http://localhost:3000''"
  "url_pathname (request_ex uid path fd) = path"
  by (simp_all add: request_ex_def form_ex_def)

theorem action_forget_clears_defaults_witness:
  "getUserId (request_ex (Some ''U1'') ''/choose-org'' (form_ex ''A'' None False)) = Some ''U1''
   \<and> ''U1'' \<noteq> []
   \<and> fd_orgId (formData (request_ex (Some ''U1'') ''/choose-org'' (form_ex ''A'' None False))) = Some ''A''
   \<and> ''A'' \<noteq> []
   \<and> membership_findUnique db_ex ''U1'' ''A'' = Some membership_A
   \<and> fd_rememberSelection (formData (request_ex (Some ''U1'') ''/choose-org'' (form_ex ''A'' None False))) = False
   \<and> defaults_of db_ex ''U1'' = [membership_B]
   \<and> defaults_of (snd (action url_ex db_ex (request_ex (Some ''U1'') ''/choose-org'' (form_ex ''A'' None False)))) ''U1'' = []"
proof -
  let ?r = "request_ex (Some ''U1'') ''/choose-org'' (form_ex ''A'' None False)"
  have h1: "getUserId ?r = Some ''U1''" by simp
  have h2: "''U1'' \<noteq> []" by simp
  have h3: "fd_orgId (formData ?r) = Some ''A''" by simp
  have h4: "''A'' \<noteq> []" by simp
  have h5: "membership_findUnique db_ex ''U1'' ''A'' = Some membership_A" by simp
  have h6: "fd_rememberSelection (formData ?r) = False" by simp
  have d: "defaults_of db_ex ''U1'' = [membership_B]"
    by (simp add: defaults_of_def db_ex_def membership_A_def membership_B_def)
  show ?thesis
    using h1 h2 h3 h4 h5 h6 d
    by (simp add: action_forget_clears_defaults [OF h1 h2 h3 h4 h5 h6])
qed

lemma find_Some_P: "find P xs = Some x \<Longrightarrow> P x"
  by (induction xs) (auto split: if_splits)

text \<open>
  Claim C1 says that after a selection with ``remember selection'' exactly one membership
  of the user is the default, the selected one. In the scenario of the specification
  (\<open>U1\<close> with \<open>A\<close> not the default and \<open>B\<close> the default, \<open>A\<close> submitted and remembered)
  the action leaves two defaults, \<open>A\<close> and \<open>B\<close>: the remembering branch sets the flag
  of the selected membership and clears no other, whereas the forgetting branch clears
  the flag of every membership of the user.
\<close>

theorem action_remember_leaves_second_default:
  "defaults_of (snd (action U db_ex (request_ex (Some ''U1'') ''/choose-org'' (form_ex ''A'' None True)))) ''U1''
     = [membership_A\<lparr>isDefault := True\<rparr>, membership_B]"
proof -
  let ?r = "request_ex (Some ''U1'') ''/choose-org'' (form_ex ''A'' None True)"
  have h1: "getUserId ?r = Some ''U1''" by simp
  have h2: "''U1'' \<noteq> []" by simp
  have h3: "fd_orgId (formData ?r) = Some ''A''" by simp
  have h4: "''A'' \<noteq> []" by simp
  have h5: "membership_findUnique db_ex ''U1'' ''A'' = Some membership_A" by simp
  show ?thesis
    by (simp add: action_db [OF h1 h2 h3 h4 h5])
      (simp add: defaults_of_def db_ex_def membership_A_def membership_B_def)
qed

text \<open>
  What the remembering branch does in general: the selected membership becomes a
  default, every other membership of the user is left as it was.
\<close>

lemma find_after_update:
  "find (\<lambda>m. membership_userId m = uid \<and> membership_orgId m = oid')
     (map (\<lambda>m. if membership_userId m = uid \<and> membership_orgId m = oid
               then m\<lparr>isDefault := v\<rparr> else m) ms)
   = map_option (\<lambda>m. if membership_orgId m = oid then m\<lparr>isDefault := v\<rparr> else m)
       (find (\<lambda>m. membership_userId m = uid \<and> membership_orgId m = oid') ms)"
  by (induction ms) auto

lemma action_remember_sets_default:
  assumes "getUserId request = Some uid" and "uid \<noteq> []"
    and "fd_orgId (formData request) = Some oid" and "oid \<noteq> []"
    and "membership_findUnique db uid oid = Some m"
    and "fd_rememberSelection (formData request)"
  shows "membership_findUnique (snd (action U db request)) uid oid = Some (m\<lparr>isDefault := True\<rparr>)"
    and "oid' \<noteq> oid \<Longrightarrow>
           membership_findUnique (snd (action U db request)) uid oid' = membership_findUnique db uid oid'"
proof -
  have db': "memberships (snd (action U db request)) =
      map (\<lambda>m. if membership_userId m = uid \<and> membership_orgId m = oid
                then m\<lparr>isDefault := True\<rparr> else m) (memberships db)"
    using assms by (simp add: action_db)
  have key: "membership_orgId m = oid"
    using assms(5) find_Some_P [of _ "memberships db" m]
    unfolding membership_findUnique_def by blast
  show "membership_findUnique (snd (action U db request)) uid oid = Some (m\<lparr>isDefault := True\<rparr>)"
    using assms(5) key
    unfolding membership_findUnique_def db' find_after_update by simp
  show "membership_findUnique (snd (action U db request)) uid oid' = membership_findUnique db uid oid'"
    if ne: "oid' \<noteq> oid"
  proof (cases "membership_findUnique db uid oid'")
    case None
    then show ?thesis
      unfolding membership_findUnique_def db' find_after_update by simp
  next
    case (Some x)
    then have "membership_orgId x = oid'"
      using find_Some_P [of _ "memberships db" x]
      unfolding membership_findUnique_def by blast
    with Some ne show ?thesis
      unfolding membership_findUnique_def db' find_after_update by simp
  qed
qed

text \<open>
  Claim C5. When an authenticated user submits an organization they have no membership
  in, the action fails and changes nothing: the database is returned as it was, and no
  response carrying a committed session is produced. For a non-empty \<open>orgId\<close> the
  failure is the error thrown by \<open>findUniqueOrThrow\<close>; an empty \<open>orgId\<close> is refused
  before that by the validator, with the field error of \<open>orgId\<close>.
\<close>

theorem action_unknown_org:
  assumes "getUserId request = Some uid" and "uid \<noteq> []"
    and "fd_orgId (formData request) = Some oid"
    and "membership_findUnique db uid oid = None"
  shows "action U db request =
           (if oid = [] then Inr (ValidationError [(''orgId'', ''Organization is required'')])
            else Inl NotFoundError, db)"
  using assms
  by (simp add: action_def requireUserId_present validate_orgId validate_orgId_empty
      membership_findUniqueOrThrow_def)

theorem action_unknown_org_witness:
  "getUserId (request_ex (Some ''U1'') ''/choose-org'' (form_ex ''C'' None True)) = Some ''U1''
   \<and> ''U1'' \<noteq> []
   \<and> fd_orgId (formData (request_ex (Some ''U1'') ''/choose-org'' (form_ex ''C'' None True))) = Some ''C''
   \<and> membership_findUnique db_ex ''U1'' ''C'' = None
   \<and> action url_ex db_ex (request_ex (Some ''U1'') ''/choose-org'' (form_ex ''C'' None True))
       = (Inl NotFoundError, db_ex)"
proof -
  let ?r = "request_ex (Some ''U1'') ''/choose-org'' (form_ex ''C'' None True)"
  have h1: "getUserId ?r = Some ''U1''" by simp
  have h2: "''U1'' \<noteq> []" by simp
  have h3: "fd_orgId (formData ?r) = Some ''C''" by simp
  have h4: "membership_findUnique db_ex ''U1'' ''C'' = None" by simp
  show ?thesis
    using h1 h2 h3 h4
    by (simp add: action_unknown_org [OF h1 h2 h3 h4])
qed

lemma plain_origin_localhost: "plain_origin ''http://localhost:3000''"
  by (simp add: plain_origin_def plain_host_port_def isLowerLetter_def isDigit_def)

lemma URL_new_url_ex:
  "URL_new url_ex ''/'' ''http://localhost:3000'' = Inr (''http://localhost:3000/'', [])"
  "URL_new url_ex ''/choose-org'' ''http://localhost:3000''
     = Inr (''http://localhost:3000/choose-org'', [])"
  "URL_new url_ex ''/accounts/42'' ''http://localhost:3000''
     = Inr (''http://localhost:3000/accounts/42'', [])"
  by (simp_all add: url_ex_def URL_plain_def plain_origin_localhost plain_path_def
      isAlphanumeric_def)

lemma URL_toString_url_ex: "URL_toString url_ex (h, []) = h"
  by (simp add: url_ex_def)

lemma getSession_request_ex:
  "getSession (request_ex (Some u) path fd) = [''userId'' \<mapsto> u]"
  by (simp add: getSession_def request_ex_def)

text \<open>
  Claim C3 says that a submitted \<open>redirectTo\<close> equal to \<open>/choose-org\<close> is normalised to
  the root, so that the response never leads back to the chooser. The action does not
  normalise: a submission with \<open>redirectTo = /choose-org\<close> is redirected to the chooser.
\<close>

theorem action_redirects_to_chooser_counterexample:
  "fst (action url_ex db_ex (request_ex (Some ''U1'') ''/choose-org'' (form_ex ''A'' (Some ''/choose-org'') True)))
     = Inr (Redirect ''http://localhost:3000/choose-org''
         (Some (CommitSession [''userId'' \<mapsto> ''U1'', ''organizationId'' \<mapsto> ''A''] None)))"
proof -
  let ?r = "request_ex (Some ''U1'') ''/choose-org'' (form_ex ''A'' (Some ''/choose-org'') True)"
  have h1: "getUserId ?r = Some ''U1''" by simp
  have h2: "''U1'' \<noteq> []" by simp
  have h3: "fd_orgId (formData ?r) = Some ''A''" by simp
  have h4: "''A'' \<noteq> []" by simp
  have h5: "membership_findUnique db_ex ''U1'' ''A'' = Some membership_A" by simp
  show ?thesis
    by (simp add: action_response [OF h1 h2 h3 h4 h5] URL_new_url_ex URL_toString_url_ex
        getSession_request_ex ORGANIZATION_SESSION_KEY_def)
qed

lemma LoginPage_redirectTo_cases:
  "LoginPage_redirectTo param =
     (case param of
        None \<Rightarrow> ''/''
      | Some s \<Rightarrow> if s = [] \<or> s = ''/choose-org'' then ''/'' else s)"
  by (simp add: LoginPage_redirectTo_def Let_def split: option.splits)

lemma LoginPage_redirectTo_not_chooser: "LoginPage_redirectTo param \<noteq> ''/choose-org''"
  by (simp add: LoginPage_redirectTo_cases split: option.splits)

text \<open>
  Claim C3, amended. For a valid submission the action redirects to the submitted
  \<open>redirectTo\<close>, resolved against the origin of the request by the URL class, and to
  \<open>/\<close> when \<open>redirectTo\<close> is absent, committing the session with the selected
  organization. The normalisation is in the form, not in the action: the hidden field
  the form submits is \<open>/\<close> when the search parameter \<open>redirectTo\<close> of the page is absent,
  empty or \<open>/choose-org\<close>, and the search parameter itself otherwise; so it is never
  \<open>/choose-org\<close>.
\<close>

theorem action_redirect_target:
  assumes "getUserId request = Some uid" and "uid \<noteq> []"
    and "fd_orgId (formData request) = Some oid" and "oid \<noteq> []"
    and "membership_findUnique db uid oid = Some m"
    and "URL_new U (case fd_redirectTo (formData request) of None \<Rightarrow> ''/'' | Some r \<Rightarrow> r)
           (url_origin request) = Inr redirectUrl"
  shows "fst (action U db request) =
           Inr (Redirect (URL_toString U redirectUrl)
             (Some (CommitSession ((getSession request)(''organizationId'' \<mapsto> oid)) None)))
       \<and> LoginPage_redirectTo param =
           (case param of
              None \<Rightarrow> ''/''
            | Some s \<Rightarrow> if s = [] \<or> s = ''/choose-org'' then ''/'' else s)
       \<and> LoginPage_redirectTo param \<noteq> ''/choose-org''"
  using assms
  by (simp add: action_response ORGANIZATION_SESSION_KEY_def LoginPage_redirectTo_not_chooser
      LoginPage_redirectTo_cases [symmetric])

theorem action_redirect_target_witness:
  "getUserId (request_ex (Some ''U1'') ''/choose-org'' (form_ex ''B'' (Some ''/accounts/42'') False)) = Some ''U1''
   \<and> ''U1'' \<noteq> []
   \<and> fd_orgId (formData (request_ex (Some ''U1'') ''/choose-org'' (form_ex ''B'' (Some ''/accounts/42'') False))) = Some ''B''
   \<and> ''B'' \<noteq> []
   \<and> membership_findUnique db_ex ''U1'' ''B'' = Some membership_B
   \<and> URL_new url_ex ''/accounts/42'' ''http://localhost:3000''
       = Inr (''http://localhost:3000/accounts/42'', [])
   \<and> fst (action url_ex db_ex (request_ex (Some ''U1'') ''/choose-org'' (form_ex ''B'' (Some ''/accounts/42'') False)))
       = Inr (Redirect ''http://localhost:3000/accounts/42''
           (Some (CommitSession [''userId'' \<mapsto> ''U1'', ''organizationId'' \<mapsto> ''B''] None)))
   \<and> URL_new url_ex ''/'' ''http://localhost:3000'' = Inr (''http://localhost:3000/'', [])
   \<and> fst (action url_ex db_ex (request_ex (Some ''U1'') ''/choose-org'' (form_ex ''B'' None False)))
       = Inr (Redirect ''http://localhost:3000/''
           (Some (CommitSession [''userId'' \<mapsto> ''U1'', ''organizationId'' \<mapsto> ''B''] None)))
   \<and> LoginPage_redirectTo (Some ''/choose-org'') = ''/''
   \<and> LoginPage_redirectTo (Some []) = ''/''
   \<and> LoginPage_redirectTo None = ''/''
   \<and> LoginPage_redirectTo (Some ''/accounts/42'') = ''/accounts/42''"
proof -
  let ?r = "request_ex (Some ''U1'') ''/choose-org'' (form_ex ''B'' (Some ''/accounts/42'') False)"
  let ?d = "request_ex (Some ''U1'') ''/choose-org'' (form_ex ''B'' None False)"
  have h1: "getUserId ?r = Some ''U1''" and d1: "getUserId ?d = Some ''U1''" by simp_all
  have h2: "''U1'' \<noteq> []" by simp
  have h3: "fd_orgId (formData ?r) = Some ''B''" and d3: "fd_orgId (formData ?d) = Some ''B''"
    by simp_all
  have h4: "''B'' \<noteq> []" by simp
  have h5: "membership_findUnique db_ex ''U1'' ''B'' = Some membership_B" by simp
  have u: "URL_new url_ex ''/accounts/42'' ''http://localhost:3000''
             = Inr (''http://localhost:3000/accounts/42'', [])"
    and v: "URL_new url_ex ''/'' ''http://localhost:3000'' = Inr (''http://localhost:3000/'', [])"
    by (simp_all add: URL_new_url_ex)
  have h6: "URL_new url_ex (case fd_redirectTo (formData ?r) of None \<Rightarrow> ''/'' | Some r \<Rightarrow> r)
              (url_origin ?r) = Inr (''http://localhost:3000/accounts/42'', [])"
    using u by simp
  have d6: "URL_new url_ex (case fd_redirectTo (formData ?d) of None \<Rightarrow> ''/'' | Some r \<Rightarrow> r)
              (url_origin ?d) = Inr (''http://localhost:3000/'', [])"
    using v by simp
  note t = action_redirect_target [OF h1 h2 h3 h4 h5 h6]
  note t' = action_redirect_target [OF d1 h2 d3 h4 h5 d6]
  have a: "fst (action url_ex db_ex ?r)
       = Inr (Redirect ''http://localhost:3000/accounts/42''
           (Some (CommitSession [''userId'' \<mapsto> ''U1'', ''organizationId'' \<mapsto> ''B''] None)))"
    using t by (simp add: URL_toString_url_ex getSession_request_ex)
  have b: "fst (action url_ex db_ex ?d)
       = Inr (Redirect ''http://localhost:3000/''
           (Some (CommitSession [''userId'' \<mapsto> ''U1'', ''organizationId'' \<mapsto> ''B''] None)))"
    using t' by (simp add: URL_toString_url_ex getSession_request_ex)
  have l: "LoginPage_redirectTo (Some ''/choose-org'') = ''/''"
    "LoginPage_redirectTo (Some []) = ''/''"
    "LoginPage_redirectTo None = ''/''"
    "LoginPage_redirectTo (Some ''/accounts/42'') = ''/accounts/42''"
    using t [of "Some ''/choose-org''"] t [of "Some []"] t [of None] t [of "Some ''/accounts/42''"]
    by simp_all
  from h1 h2 h3 h4 h5 u v a b l show ?thesis by blast
qed

section \<open>Properties of the mail senders\<close>

text \<open>
  Claim C9 says that no failure of a mail sender reaches the caller. For an
  organization that does not exist, \<open>sendPasswordResetEmail\<close> and
  \<open>sendPasswordSetupEmail\<close> throw: their lookup of the organization is outside the
  \<open>try\<close> block. \<open>sendReimbursementRequestUpdateEmail\<close> does the same lookup inside its
  \<open>try\<close> block and returns the error.
\<close>

theorem sendPasswordEmail_unknown_org_throws:
  "sendPasswordResetEmail U M db_ex ''una@example.org'' ''token'' ''Z'' = Inl NotFoundError
   \<and> sendPasswordSetupEmail U M db_ex ''una@example.org'' ''token'' ''Z'' = Inl NotFoundError
   \<and> sendReimbursementRequestUpdateEmail U M db_ex ''una@example.org'' APPROVED ''Z'' None
       = Inr (Error NotFoundError, [NotFoundError])"
  by (simp add: sendPasswordResetEmail_def sendPasswordSetupEmail_def
      sendReimbursementRequestUpdateEmail_def organization_findUniqueOrThrow_def db_ex_def
      try_capture_def)

text \<open>
  What does hold: \<open>sendReimbursementRequestUpdateEmail\<close> never throws, and a failure of
  the transport is captured and returned by all three senders.
\<close>

lemma sendReimbursementRequestUpdateEmail_never_throws:
  "\<exists>r. sendReimbursementRequestUpdateEmail U M db email status oid note = Inr r"
  by (simp add: sendReimbursementRequestUpdateEmail_def)

lemma sendPasswordResetEmail_transport_failure:
  fixes M :: "('x, 'd) Mailer"
  assumes "(organization_findUniqueOrThrow db oid :: 'x thrown + Organization) = Inr org"
    and "URL_new U ''/passwords/new'' (org_base org) = Inr url0"
    and "\<And>msg. sendEmail M msg = Inl x"
  shows "sendPasswordResetEmail U M db email token oid = Inr (Error (Exception x), [Exception x])"
  using assms by (simp add: sendPasswordResetEmail_def try_capture_def Let_def)

lemma sendPasswordSetupEmail_transport_failure:
  fixes M :: "('x, 'd) Mailer"
  assumes "(organization_findUniqueOrThrow db oid :: 'x thrown + Organization) = Inr org"
    and "(user_findUniqueOrThrow_username db email :: 'x thrown + User) = Inr user"
    and "URL_new U ''/passwords/new'' (org_base org) = Inr url0"
    and "render_WelcomeEmail M (contact_firstName user) (org_name org)
           (URL_toString U (URL_searchParams_set U url0 ''token'' token)) = Inr html"
    and "\<And>msg. sendEmail M msg = Inl x"
  shows "sendPasswordSetupEmail U M db email token oid = Inr (Error (Exception x), [Exception x])"
  using assms by (simp add: sendPasswordSetupEmail_def try_capture_def Let_def)

lemma sendPasswordSetupEmail_unknown_user_throws:
  fixes M :: "('x, 'd) Mailer"
  assumes "(organization_findUniqueOrThrow db oid :: 'x thrown + Organization) = Inr org"
    and "(user_findUniqueOrThrow_username db email :: 'x thrown + User) = Inl e"
  shows "sendPasswordSetupEmail U M db email token oid = Inl e"
  using assms by (simp add: sendPasswordSetupEmail_def)

end
